theory Spec2Isabelle
  imports Complex_Main "HOL-Library.Multiset"
begin

section \<open>Python values and the collaborators of the trace recorder\<close>

text \<open>
  The recorder of \<^verbatim>\<open>tracing/_tracer.py\<close> handles arbitrary Python values (trace inputs and
  outputs). The values it distinguishes are: \<^verbatim>\<open>None\<close>, dictionaries (with their keys),
  instances of \<^verbatim>\<open>collections.abc.Iterator\<close>, instances of \<^verbatim>\<open>GeneratorProxy\<close>, and
  strings (the result of \<^verbatim>\<open>str\<close>). Everything else is an opaque object with an identity.
  A dictionary is an association list: order of insertion is kept by Python. A
  \<^verbatim>\<open>GeneratorProxy\<close> is the sequence it wraps together with the items it has yielded so far.
\<close>

datatype pyval =
    PNone
  | PBool bool
  | PInt int
  | PStr string
  | PList "pyval list"
  | PDict "(pyval \<times> pyval) list"
  | PObject nat
  | PIterator nat
  | PGeneratorProxy pyval "pyval list"
  | PGenerateFromProxy pyval

text \<open>Exceptions that the modelled code raises, or that its collaborators raise.\<close>

datatype exn =
    KeyError string
  | UserErrorException string
  | NotSupported string
  | Raised string

text \<open>
  Functions that \<^verbatim>\<open>_tracer.py\<close> imports from modules outside the two source files:
  \<^verbatim>\<open>serialize\<close> (\<^verbatim>\<open>promptflow._utils.dataclass_serializer\<close>), \<^verbatim>\<open>json.dumps\<close> with
  \<^verbatim>\<open>default_json_encoder\<close>, and the builtin \<^verbatim>\<open>str\<close> on objects that are not strings,
  which runs the object's own \<^verbatim>\<open>__str__\<close>. They are parameters of the model. Each of them
  may raise.
\<close>

record env =
  serialize :: "pyval \<Rightarrow> exn + pyval"
  json_dumps :: "pyval \<Rightarrow> exn + string"
  str_of :: "pyval \<Rightarrow> exn + string"

text \<open>Python's \<^verbatim>\<open>str(obj)\<close>: a string is returned as it is; for any other object the
  result, or the exception, is that of its \<^verbatim>\<open>__str__\<close>.\<close>

definition py_str :: "env \<Rightarrow> pyval \<Rightarrow> exn + string" where
  "py_str e obj = (case obj of PStr s \<Rightarrow> Inr s | _ \<Rightarrow> str_of e obj)"

text \<open>\<^verbatim>\<open>isinstance(obj, dict) and all(isinstance(k, str) for k in obj.keys())\<close>\<close>

fun is_str :: "pyval \<Rightarrow> bool" where
  "is_str (PStr s) = True"
| "is_str _ = False"

fun is_str_keyed_dict :: "pyval \<Rightarrow> bool" where
  "is_str_keyed_dict (PDict kvs) = list_all (\<lambda>kv. is_str (fst kv)) kvs"
| "is_str_keyed_dict _ = False"

text \<open>\<^verbatim>\<open>isinstance(obj, GeneratorProxy)\<close>\<close>

fun is_GeneratorProxy :: "pyval \<Rightarrow> bool" where
  "is_GeneratorProxy (PGeneratorProxy g items) = True"
| "is_GeneratorProxy _ = False"

text \<open>
  Modelled from the spec: \<^verbatim>\<open>isinstance(obj, Iterator)\<close> for the class \<^verbatim>\<open>GeneratorProxy\<close> of
  \<^verbatim>\<open>promptflow._core.generator_proxy\<close>, which is not among the source files. The spec (4.2)
  makes the proxy itself the single-pass iterable (each request for the next item pulls one
  item from the wrapped sequence), so a proxy is an iterator, as are generators.
\<close>

fun is_Iterator :: "pyval \<Rightarrow> bool" where
  "is_Iterator (PIterator i) = True"
| "is_Iterator (PGeneratorProxy g items) = True"
| "is_Iterator (PGenerateFromProxy p) = True"
| "is_Iterator _ = False"

text \<open>
  The body of the \<^verbatim>\<open>try\<close> block of \<^verbatim>\<open>to_serializable\<close>:
  \<^verbatim>\<open>obj = serialize(obj); json.dumps(obj, default=default_json_encoder)\<close>.
  The first statement rebinds \<^verbatim>\<open>obj\<close>, so the handler sees the serialized object
  when only the encoding fails. The result is the exception together with the value
  \<^verbatim>\<open>obj\<close> is bound to when it is raised, or the serialized object.
\<close>

definition try_serialize :: "env \<Rightarrow> pyval \<Rightarrow> (exn \<times> pyval) + pyval" where
  "try_serialize e obj =
     (case serialize e obj of
        Inl x \<Rightarrow> Inl (x, obj)
      | Inr obj' \<Rightarrow>
          (case json_dumps e obj' of
             Inl x \<Rightarrow> Inl (x, obj')
           | Inr s \<Rightarrow> Inr obj'))"

text \<open>Evaluation of a dict comprehension whose value expressions may raise: the first
  exception ends it.\<close>

fun collect :: "('k \<times> (exn + 'v)) list \<Rightarrow> exn + ('k \<times> 'v) list" where
  "collect [] = Inr []"
| "collect ((k, r) # rest) =
     (case r of
        Inl x \<Rightarrow> Inl x
      | Inr v \<Rightarrow> (case collect rest of Inl x \<Rightarrow> Inl x | Inr kvs \<Rightarrow> Inr ((k, v) # kvs)))"

text \<open>
  \<^verbatim>\<open>Tracer.to_serializable\<close>, with the exceptions of its callees as values. The \<^verbatim>\<open>try\<close> block
  holds \<^verbatim>\<open>serialize\<close> and \<^verbatim>\<open>json.dumps\<close> only: the recursive calls of the dictionary case and
  \<^verbatim>\<open>obj = str(obj)\<close> in the handler are outside it, so their exceptions leave the function.
\<close>

function to_serializable :: "env \<Rightarrow> pyval \<Rightarrow> exn + pyval" where
  "to_serializable e obj =
     (if is_str_keyed_dict obj then
        (case obj of
           PDict kvs \<Rightarrow>
             (case collect (map (\<lambda>kv. (fst kv, to_serializable e (snd kv))) kvs) of
                Inl x \<Rightarrow> Inl x
              | Inr kvs' \<Rightarrow> Inr (PDict kvs'))
         | _ \<Rightarrow> Inr obj)
      else if is_GeneratorProxy obj then Inr obj
      else
        (case try_serialize e obj of
           Inr obj' \<Rightarrow> Inr obj'
         | Inl (x, obj') \<Rightarrow>
             (case py_str e obj' of
                Inl y \<Rightarrow> Inl y
              | Inr s \<Rightarrow> Inr (PStr s))))"
  by pat_completeness auto
termination
proof (relation "measure (\<lambda>(e, obj). size obj)")
  show "wf (measure (\<lambda>(e, obj). size obj))" by simp
next
  fix e :: env and obj kvs and kv :: "pyval \<times> pyval"
  assume "obj = PDict kvs" and kv: "kv \<in> set kvs"
  have "size (snd kv) \<le> size_prod size size kv"
    by (cases kv) simp
  with kv have "size (snd kv) \<le> size_list (size_prod size size) kvs"
    by (rule size_list_estimation')
  with \<open>obj = PDict kvs\<close> show "((e, snd kv), (e, obj)) \<in> measure (\<lambda>(e, obj). size obj)"
    by simp
qed

declare to_serializable.simps [simp del]

text \<open>
  An example of the collaborators, for evaluating the model on concrete values:
  \<^verbatim>\<open>serialize\<close> raises on the object \<open>PObject 0\<close> and returns any other value as it is, the
  encoder accepts \<^verbatim>\<open>None\<close>, booleans, integers, strings, lists and string-keyed dictionaries
  of such values and raises on anything else, and \<^verbatim>\<open>str\<close> of an object that is not a string
  is a fixed text. In the second example \<^verbatim>\<open>__str__\<close> of the object \<open>PObject 2\<close> raises, and
  \<^verbatim>\<open>serialize\<close> hands that object back as it is, so that the encoder refuses it.
\<close>

fun encodable :: "pyval \<Rightarrow> bool" where
  "encodable PNone = True"
| "encodable (PBool b) = True"
| "encodable (PInt i) = True"
| "encodable (PStr s) = True"
| "encodable (PList vs) = list_all encodable vs"
| "encodable (PDict kvs) = list_all (\<lambda>kv. is_str (fst kv) \<and> encodable (snd kv)) kvs"
| "encodable _ = False"

definition example_env :: env where
  "example_env =
     \<lparr> serialize = (\<lambda>v. if v = PObject 0 then Inl (Raised ''cannot serialize'') else Inr v),
       json_dumps = (\<lambda>v. if encodable v then Inr ''json'' else Inl (Raised ''TypeError'')),
       str_of = (\<lambda>v. Inr ''<object>'') \<rparr>"

definition raising_str_env :: env where
  "raising_str_env =
     \<lparr> serialize = (\<lambda>v. if v = PObject 0 then Inl (Raised ''cannot serialize'') else Inr v),
       json_dumps = (\<lambda>v. if encodable v then Inr ''json'' else Inl (Raised ''TypeError'')),
       str_of = (\<lambda>v. if v = PObject 2 then Inl (Raised ''__str__'') else Inr ''<object>'') \<rparr>"

section \<open>The trace recorder\<close>

subsection \<open>Traces\<close>

text \<open>
  Modelled from the spec: the \<^verbatim>\<open>Trace\<close> dataclass of \<^verbatim>\<open>tracing/contracts/trace.py\<close> and its
  \<^verbatim>\<open>TraceType\<close> enumeration, which are not among the source files; the fields are those of
  section 3 of the spec and those \<^verbatim>\<open>_tracer.py\<close> reads and writes. \<^verbatim>\<open>id\<close>, \<^verbatim>\<open>type\<close> and
  \<^verbatim>\<open>output\<close> are named \<open>trace_id\<close>, \<open>trace_type\<close> and \<open>trace_output\<close> here. An absent id or parent id is the empty string
  (\<^verbatim>\<open>_current_trace_id\<close> has the default \<^verbatim>\<open>""\<close>); an absent time or error is \<^verbatim>\<open>None\<close>.

  Trace objects are mutable and shared (a parent's \<^verbatim>\<open>children\<close> list and \<^verbatim>\<open>_id_to_trace\<close> refer
  to the same objects), so they live in a store: \<open>children\<close> holds addresses.
\<close>

datatype TraceType = FUNCTION | TOOL | LLM | EMBEDDING | FLOW

type_synonym timestamp = real

record trace_fields =
  trace_id :: string
  name :: string
  trace_type :: TraceType
  inputs :: pyval
  trace_output :: pyval
  start_time :: "timestamp option"
  end_time :: "timestamp option"
  error :: "(string \<times> string) list option"
  node_name :: "string option"
  parent_id :: string

record trace = trace_fields +
  children :: "nat list"

text \<open>An exception object handed to \<^verbatim>\<open>pop\<close>: what \<^verbatim>\<open>str(error)\<close> gives, which is the
  outcome of the exception's own \<^verbatim>\<open>__str__\<close> and may be an exception in its turn, and what
  \<^verbatim>\<open>type(error).__qualname__\<close> gives.\<close>

record py_exception =
  exc_str :: "exn + string"
  exc_qualname :: string

text \<open>\<^verbatim>\<open>Tracer._format_error\<close>\<close>

definition format_error :: "py_exception \<Rightarrow> exn + (string \<times> string) list" where
  "format_error err =
     (case exc_str err of
        Inl x \<Rightarrow> Inl x
      | Inr m \<Rightarrow> Inr [(''message'', m), (''type'', exc_qualname err)])"

text \<open>Python's truth value of an object, as \<^verbatim>\<open>if trace.inputs:\<close> tests it.\<close>

fun truthy :: "pyval \<Rightarrow> bool" where
  "truthy PNone = False"
| "truthy (PBool b) = b"
| "truthy (PInt i) = (i \<noteq> 0)"
| "truthy (PStr s) = (s \<noteq> [])"
| "truthy (PList vs) = (vs \<noteq> [])"
| "truthy (PDict kvs) = (kvs \<noteq> [])"
| "truthy _ = True"

subsection \<open>The recorder object\<close>

text \<open>
  The fields of \<^verbatim>\<open>Tracer.__init__\<close> (\<^verbatim>\<open>_run_id\<close>, \<^verbatim>\<open>_node_name\<close>, \<^verbatim>\<open>_traces\<close>,
  \<^verbatim>\<open>_current_trace_id\<close>, \<^verbatim>\<open>_id_to_trace\<close>), and the store of the trace objects the recorder
  has been handed: \<open>heap\<close> maps an address to the object there and \<open>next_addr\<close> is the first
  address not yet in use. A run identifier is a string: \<^verbatim>\<open>end_tracing\<close> declares
  \<^verbatim>\<open>Optional[str]\<close>, with \<^verbatim>\<open>None\<close> for "not given", and \<^verbatim>\<open>current_run_id\<close> returns \<^verbatim>\<open>None\<close>
  for "no recorder".
\<close>

record tracer =
  run_id :: string
  tracer_node_name :: "string option"
  traces :: "nat list"
  current_trace_id :: string
  id_to_trace :: "string \<rightharpoonup> nat"
  heap :: "nat \<Rightarrow> trace"
  next_addr :: nat

text \<open>The content of a store cell that holds no object yet.\<close>

definition unallocated :: trace where
  "unallocated =
     \<lparr> trace_id = '''', name = '''', trace_type = FUNCTION, inputs = PNone, trace_output = PNone,
       start_time = None, end_time = None, error = None, node_name = None, parent_id = '''',
       children = [] \<rparr>"

text \<open>\<^verbatim>\<open>Tracer.__init__\<close>\<close>

definition Tracer_init :: "string \<Rightarrow> string option \<Rightarrow> tracer" where
  "Tracer_init rid nn =
     \<lparr> run_id = rid, tracer_node_name = nn, traces = [], current_trace_id = '''',
       id_to_trace = Map.empty, heap = (\<lambda>a. unallocated), next_addr = 0 \<rparr>"

text \<open>\<^verbatim>\<open>Tracer._get_current_trace\<close>: the subscript \<^verbatim>\<open>self._id_to_trace[trace_id]\<close> raises
  \<^verbatim>\<open>KeyError\<close> on an id that is not a key.\<close>

definition get_current_trace :: "tracer \<Rightarrow> exn + nat option" where
  "get_current_trace tr =
     (let tid = current_trace_id tr in
      if tid = '''' then Inr None
      else (case id_to_trace tr tid of
              None \<Rightarrow> Inl (KeyError tid)
            | Some a \<Rightarrow> Inr (Some a)))"

text \<open>
  \<^verbatim>\<open>Tracer._push\<close>. The caller hands over a trace object it has just constructed (as the
  tracing decorators do with \<^verbatim>\<open>_create_trace_from_function_call\<close>), so the object is
  stored at the next free address. \<open>now\<close> is what \<^verbatim>\<open>datetime.utcnow().timestamp()\<close> returns
  and \<open>uuid\<close> what \<^verbatim>\<open>str(uuid.uuid4())\<close> returns at this call.
\<close>

definition Tracer_push :: "env \<Rightarrow> tracer \<Rightarrow> timestamp \<Rightarrow> string \<Rightarrow> trace \<Rightarrow> exn + tracer" where
  "Tracer_push e tr now uuid t =
     (let t1 = (if trace_id t = '''' then t\<lparr>trace_id := uuid\<rparr> else t) in
      case (if truthy (inputs t1) then to_serializable e (inputs t1) else Inr (inputs t1)) of
        Inl x \<Rightarrow> Inl x
      | Inr ins \<Rightarrow>
          (let t2 = t1\<lparr>inputs := ins\<rparr>;
               t3 = t2\<lparr>children := []\<rparr>;
               t4 = (if start_time t3 = None \<or> start_time t3 = Some 0
                     then t3\<lparr>start_time := Some now\<rparr> else t3);
               a = next_addr tr
           in case get_current_trace tr of
                Inl x \<Rightarrow> Inl x
              | Inr None \<Rightarrow>
                  Inr (tr\<lparr>traces := traces tr @ [a],
                          heap := (heap tr)(a := t4\<lparr>node_name := tracer_node_name tr\<rparr>),
                          next_addr := Suc a,
                          current_trace_id := trace_id t4,
                          id_to_trace := (id_to_trace tr)(trace_id t4 \<mapsto> a)\<rparr>)
              | Inr (Some p) \<Rightarrow>
                  (let parent_trace = heap tr p in
                   Inr (tr\<lparr>heap := (heap tr)
                            (p := parent_trace\<lparr>children := children parent_trace @ [a]\<rparr>,
                             a := t4\<lparr>parent_id := trace_id parent_trace\<rparr>),
                          next_addr := Suc a,
                          current_trace_id := trace_id t4,
                          id_to_trace := (id_to_trace tr)(trace_id t4 \<mapsto> a)\<rparr>))))"



text \<open>
  \<^verbatim>\<open>Tracer._pop\<close>. The result is the returned value, the recorder and the warnings logged,
  or the exception that leaves the call: that of \<^verbatim>\<open>_get_current_trace\<close>, of
  \<^verbatim>\<open>to_serializable\<close> (line 116) or of \<^verbatim>\<open>_format_error\<close> (line 118), none of which is guarded.
  \<^verbatim>\<open>GeneratorProxy(output)\<close> is \<open>PGeneratorProxy output []\<close>, a proxy that has yielded nothing
  yet, and \<^verbatim>\<open>generate_from_proxy(proxy)\<close> is \<open>PGenerateFromProxy proxy\<close>.
\<close>

definition Tracer_pop ::
  "env \<Rightarrow> tracer \<Rightarrow> timestamp \<Rightarrow> pyval \<Rightarrow> py_exception option \<Rightarrow> exn + (pyval \<times> tracer \<times> string list)" where
  "Tracer_pop e tr now out err =
     (case get_current_trace tr of
        Inl x \<Rightarrow> Inl x
      | Inr None \<Rightarrow>
          Inr (out, tr, [''Try to pop trace but no active trace in current context.''])
      | Inr (Some a) \<Rightarrow>
          (let last_trace = heap tr a;
               out1 = (if is_Iterator out then PGeneratorProxy out [] else out)
           in case (if out1 \<noteq> PNone then to_serializable e out1 else Inr (trace_output last_trace)) of
                Inl x \<Rightarrow> Inl x
              | Inr v \<Rightarrow>
                  (let l1 = last_trace\<lparr>trace_output := v\<rparr> in
                   case (case err of
                           None \<Rightarrow> Inr l1
                         | Some er \<Rightarrow>
                             (case format_error er of
                                Inl x \<Rightarrow> Inl x
                              | Inr d \<Rightarrow> Inr (l1\<lparr>error := Some d\<rparr>))) of
                     Inl x \<Rightarrow> Inl x
                   | Inr l2 \<Rightarrow>
                       (let l3 = l2\<lparr>end_time := Some now\<rparr>;
                            tr' = tr\<lparr>heap := (heap tr)(a := l3),
                                     current_trace_id := parent_id last_trace\<rparr>
                        in Inr (if is_GeneratorProxy out1 then PGenerateFromProxy out1 else out1,
                                tr', [])))))"

text \<open>
  Modelled from the spec: \<^verbatim>\<open>serialize\<close> of \<^verbatim>\<open>promptflow._utils.dataclass_serializer\<close> (not among
  the source files) applied to the list of root traces in \<^verbatim>\<open>Tracer.to_json\<close>: "its completed
  root traces serialized to a generic structured form (mapping/sequence/scalar tree)", which
  holds no live handles. Each trace becomes its fields with the children serialized in
  place, in their order; in the inputs and the output a streaming proxy becomes the plain
  sequence of the items it has yielded so far, and sequences and mappings are gone through.
  The recursion follows the references; \<open>None\<close> stands for a walk that does not come to an
  end within the number of objects of the store, as on a cyclic structure.
\<close>

function settle :: "pyval \<Rightarrow> pyval" where
  "settle v =
     (case v of
        PGeneratorProxy g items \<Rightarrow> PList (map settle items)
      | PList vs \<Rightarrow> PList (map settle vs)
      | PDict kvs \<Rightarrow> PDict (map (\<lambda>kv. (fst kv, settle (snd kv))) kvs)
      | _ \<Rightarrow> v)"
  by pat_completeness auto
termination
proof (relation "measure size")
  show "wf (measure size)" by simp
next
  fix v :: pyval and g items x
  assume "v = PGeneratorProxy g items" and "x \<in> set items"
  then show "(x, v) \<in> measure size"
    using size_list_estimation' [of x items "size x" size] by simp
next
  fix v :: pyval and vs x
  assume "v = PList vs" and "x \<in> set vs"
  then show "(x, v) \<in> measure size"
    using size_list_estimation' [of x vs "size x" size] by simp
next
  fix v :: pyval and kvs and kv :: "pyval \<times> pyval"
  assume v: "v = PDict kvs" and kv: "kv \<in> set kvs"
  have "size (snd kv) \<le> size_prod size size kv"
    by (cases kv) simp
  with kv have "size (snd kv) \<le> size_list (size_prod size size) kvs"
    by (rule size_list_estimation')
  with v show "(snd kv, v) \<in> measure size" by simp
qed

declare settle.simps [simp del]

datatype jtrace = JTrace trace_fields "jtrace list"

fun serialize_trace :: "nat \<Rightarrow> (nat \<Rightarrow> trace) \<Rightarrow> nat \<Rightarrow> jtrace option" where
  "serialize_trace 0 h a = None"
| "serialize_trace (Suc k) h a =
     (case those (map (serialize_trace k h) (children (h a))) of
        None \<Rightarrow> None
      | Some cs \<Rightarrow>
          Some (JTrace (trace_fields.truncate
                         ((h a)\<lparr>inputs := settle (inputs (h a)),
                                trace_output := settle (trace_output (h a))\<rparr>)) cs))"

definition to_json :: "tracer \<Rightarrow> jtrace list option" where
  "to_json tr = those (map (serialize_trace (next_addr tr) (heap tr)) (traces tr))"

fun total_nodes :: "jtrace \<Rightarrow> nat" where
  "total_nodes (JTrace t cs) = Suc (sum_list (map total_nodes cs))"

subsection \<open>The recorder bound to the execution unit\<close>

text \<open>
  The state outside the recorder object: the context variable \<^verbatim>\<open>Tracer.context_var\<close> of the
  current execution unit, which holds the active recorder or \<^verbatim>\<open>None\<close>, and the records
  written by \<^verbatim>\<open>logging.warning\<close>.
\<close>

record world =
  context_var :: "tracer option"
  warnings :: "string list"

text \<open>
  Modelled from the spec: \<^verbatim>\<open>ThreadLocalSingleton\<close> of
  \<^verbatim>\<open>promptflow._core.thread_local_singleton\<close>, which is not among the source files.
  \<^verbatim>\<open>active_instance\<close> gives the Execution Context bound to the current unit or none,
  \<^verbatim>\<open>_activate_in_context\<close> binds one ("binds a new Execution Context to the current logical
  execution unit") and \<^verbatim>\<open>_deactivate_in_context\<close> detaches it.
\<close>

definition active_instance :: "world \<Rightarrow> tracer option" where
  "active_instance w = context_var w"

definition activate_in_context :: "tracer \<Rightarrow> world \<Rightarrow> world" where
  "activate_in_context tr w = w\<lparr>context_var := Some tr\<rparr>"

definition deactivate_in_context :: "world \<Rightarrow> world" where
  "deactivate_in_context w = w\<lparr>context_var := None\<rparr>"

text \<open>\<^verbatim>\<open>Tracer.current_run_id\<close>\<close>

definition current_run_id :: "world \<Rightarrow> string option" where
  "current_run_id w =
     (case active_instance w of None \<Rightarrow> None | Some tr \<Rightarrow> Some (run_id tr))"

text \<open>\<^verbatim>\<open>Tracer.start_tracing\<close>\<close>

definition start_tracing :: "world \<Rightarrow> string \<Rightarrow> string option \<Rightarrow> world" where
  "start_tracing w rid nn =
     (case current_run_id w of
        Some cur \<Rightarrow>
          w\<lparr>warnings := warnings w @
              [''Try to start tracing for run '' @ rid @ '' but '' @ cur @ '' is already active.'']\<rparr>
      | None \<Rightarrow> activate_in_context (Tracer_init rid nn) w)"

text \<open>\<^verbatim>\<open>Tracer.end_tracing\<close>: the returned list and the state after the call.\<close>

definition end_tracing :: "world \<Rightarrow> string option \<Rightarrow> jtrace list option \<times> world" where
  "end_tracing w rid =
     (case active_instance w of
        None \<Rightarrow> (Some [], w)
      | Some tr \<Rightarrow>
          (if rid \<noteq> None \<and> Some (run_id tr) \<noteq> rid then (Some [], w)
           else (to_json tr, deactivate_in_context w)))"

text \<open>\<^verbatim>\<open>Tracer.push\<close>\<close>

definition push :: "env \<Rightarrow> world \<Rightarrow> timestamp \<Rightarrow> string \<Rightarrow> trace \<Rightarrow> exn + world" where
  "push e w now uuid t =
     (case active_instance w of
        None \<Rightarrow> Inr w
      | Some obj \<Rightarrow>
          (case Tracer_push e obj now uuid t of
             Inl x \<Rightarrow> Inl x
           | Inr obj' \<Rightarrow> Inr (w\<lparr>context_var := Some obj'\<rparr>)))"

text \<open>\<^verbatim>\<open>Tracer.pop\<close>: the returned value and the state after the call.\<close>

definition pop :: "env \<Rightarrow> world \<Rightarrow> timestamp \<Rightarrow> pyval \<Rightarrow> py_exception option \<Rightarrow> exn + (pyval \<times> world)" where
  "pop e w now out err =
     (case active_instance w of
        None \<Rightarrow> Inr (out, w)
      | Some obj \<Rightarrow>
          (case Tracer_pop e obj now out err of
             Inl x \<Rightarrow> Inl x
           | Inr (r, obj', msgs) \<Rightarrow>
               Inr (r, w\<lparr>context_var := Some obj', warnings := warnings w @ msgs\<rparr>)))"

subsection \<open>Sequences of calls\<close>






text \<open>An example trace, as a caller constructs it: no id, no parent, no times.\<close>

definition example_trace :: "string \<Rightarrow> trace" where
  "example_trace n =
     \<lparr> trace_id = '''', name = n, trace_type = FUNCTION, inputs = PDict [], trace_output = PNone,
       start_time = None, end_time = None, error = None, node_name = None, parent_id = '''',
       children = [] \<rparr>"

definition no_context :: world where
  "no_context = \<lparr> context_var = None, warnings = [] \<rparr>"

text \<open>
  The recorder and the state after \<^verbatim>\<open>start_tracing("run", "node")\<close> and one push of the
  example trace \<open>flow\<close>, at time 1 and with the generated id \<open>u1\<close>.
\<close>

definition example_tracer :: tracer where
  "example_tracer =
     \<lparr> run_id = ''run'', tracer_node_name = Some ''node'', traces = [0],
       current_trace_id = ''u1'', id_to_trace = [''u1'' \<mapsto> 0],
       heap = (\<lambda>a. unallocated)
         (0 := (example_trace ''flow'')
                 \<lparr>trace_id := ''u1'', start_time := Some 1, node_name := Some ''node''\<rparr>),
       next_addr = 1 \<rparr>"

definition example_world :: world where
  "example_world = \<lparr> context_var = Some example_tracer, warnings = [] \<rparr>"







subsection \<open>Invariants of the recorder\<close>








section \<open>The test submitter and its init context\<close>

subsection \<open>The executor proxy and its streams\<close>

text \<open>
  Modelled from the spec: the executor proxy (\<^verbatim>\<open>APIBasedExecutorProxy\<close> of \<^verbatim>\<open>promptflow.batch\<close>,
  not among the source files) with the Teardown Gate of section 4.3. The registry holds,
  for each streaming proxy registered in the session, whether it has reached its done
  state. \<^verbatim>\<open>register\<close> adds a proxy, not yet done; \<^verbatim>\<open>all_exhausted\<close> is "true iff every
  registered proxy has reached its done state"; \<^verbatim>\<open>release_when_ready\<close>, under the name the
  source calls, \<^verbatim>\<open>destroy_if_all_generators_exhausted\<close>, "performs the resource's destruction
  only if \<^verbatim>\<open>all_exhausted()\<close>" and otherwise rejects the request, leaving the resource as
  it is for a later call.
\<close>

record executor_proxy =
  generators :: "bool list"
  destroyed :: bool

definition new_executor_proxy :: executor_proxy where
  "new_executor_proxy = \<lparr> generators = [], destroyed = False \<rparr>"

definition register :: "executor_proxy \<Rightarrow> executor_proxy" where
  "register ep = ep\<lparr>generators := generators ep @ [False]\<rparr>"

text \<open>The stream registered as number \<open>i\<close> reaches its done state.\<close>

definition exhaust :: "nat \<Rightarrow> executor_proxy \<Rightarrow> executor_proxy" where
  "exhaust i ep = (if i < length (generators ep)
                   then ep\<lparr>generators := (generators ep)[i := True]\<rparr> else ep)"

definition all_exhausted :: "executor_proxy \<Rightarrow> bool" where
  "all_exhausted ep = list_all (\<lambda>done. done) (generators ep)"

definition destroy_if_all_generators_exhausted :: "executor_proxy \<Rightarrow> executor_proxy" where
  "destroy_if_all_generators_exhausted ep =
     (if all_exhausted ep then ep\<lparr>destroyed := True\<rparr> else ep)"

subsection \<open>The submitter object\<close>

text \<open>
  A flow as the submitter sees it: its language, its path, its code directory and whether
  it is an \<^verbatim>\<open>EagerFlow\<close>. The languages are those the source compares with
  (\<^verbatim>\<open>FlowLanguage.Python\<close>, \<^verbatim>\<open>FlowLanguage.CSharp\<close>) and any other name.
\<close>

datatype FlowLanguage = Python | CSharp | OtherLanguage string

fun language_name :: "FlowLanguage \<Rightarrow> string" where
  "language_name Python = ''python''"
| "language_name CSharp = ''csharp''"
| "language_name (OtherLanguage s) = s"

record flow =
  language :: FlowLanguage
  path :: string
  code :: string
  eager :: bool

type_synonym fspath = "string list"

text \<open>
  The attributes of \<^verbatim>\<open>TestSubmitter\<close> that \<^verbatim>\<open>init\<close>, \<^verbatim>\<open>_resolve_variant\<close> and the guarded members
  read and write. The attribute \<^verbatim>\<open>_x\<close> is the field \<open>x'\<close>; the property or method \<^verbatim>\<open>x\<close> is
  the function \<open>x\<close> below. Connections, storage and the data-plane flow are opaque values.
  (\<^verbatim>\<open>entry\<close>, \<^verbatim>\<open>flow_context\<close>, \<^verbatim>\<open>_variant\<close> and \<^verbatim>\<open>_client\<close> are only handed to collaborators.)
\<close>

record submitter =
  flow' :: "flow option"
  origin_flow' :: flow
  dataplane_flow' :: "pyval option"
  tuning_node' :: "string option"
  node_variant' :: "string option"
  output_base' :: "fspath option"
  relative_flow_output_path' :: "fspath option"
  connections' :: "pyval option"
  target_node' :: "string option"
  storage' :: "pyval option"
  enable_stream_output' :: "bool option"
  executor_proxy' :: "executor_proxy option"
  within_init_context' :: bool

text \<open>\<^verbatim>\<open>TestSubmitter.__init__\<close>\<close>

definition TestSubmitter_init :: "flow \<Rightarrow> submitter" where
  "TestSubmitter_init f =
     \<lparr> flow' = Some f, origin_flow' = f, dataplane_flow' = None, tuning_node' = None,
       node_variant' = None, output_base' = None, relative_flow_output_path' = None,
       connections' = None, target_node' = None, storage' = None,
       enable_stream_output' = None, executor_proxy' = None,
       within_init_context' = False \<rparr>"

text \<open>\<^verbatim>\<open>TestSubmitter._raise_if_not_within_init_context\<close>: the exception it raises, if any.\<close>

definition raise_if_not_within_init_context :: "submitter \<Rightarrow> exn option" where
  "raise_if_not_within_init_context s =
     (if \<not> within_init_context' s
      then Some (UserErrorException ''This method should be called within the init context.'')
      else None)"

text \<open>A guarded property: the guard, then the attribute.\<close>

definition guarded :: "submitter \<Rightarrow> 'a \<Rightarrow> exn + 'a" where
  "guarded s v = (case raise_if_not_within_init_context s of Some x \<Rightarrow> Inl x | None \<Rightarrow> Inr v)"

definition executor_proxy :: "submitter \<Rightarrow> exn + executor_proxy option" where
  "executor_proxy s = guarded s (executor_proxy' s)"

definition enable_stream_output :: "submitter \<Rightarrow> exn + bool option" where
  "enable_stream_output s = guarded s (enable_stream_output' s)"

definition flow :: "submitter \<Rightarrow> exn + flow option" where
  "flow s = guarded s (flow' s)"

definition output_base :: "submitter \<Rightarrow> exn + fspath option" where
  "output_base s = guarded s (output_base' s)"

definition relative_flow_output_path :: "submitter \<Rightarrow> exn + fspath option" where
  "relative_flow_output_path s = guarded s (relative_flow_output_path' s)"

definition target_node :: "submitter \<Rightarrow> exn + string option" where
  "target_node s = guarded s (target_node' s)"

text \<open>
  The arguments of \<^verbatim>\<open>init\<close>, and the calls the submitter makes into modules outside the
  source files, as parameters; each may raise. \<open>variant_overwrite\<close> stands for
  \<^verbatim>\<open>parse_variant\<close>, \<^verbatim>\<open>variant_overwrite_context\<close> and \<^verbatim>\<open>_change_working_dir\<close> being entered, and
  gives the temporary flow with the tuning node and the node variant; \<open>init_environment\<close>
  for the resolution of environment variables, \<^verbatim>\<open>init_env\<close> and \<^verbatim>\<open>start_trace\<close>; \<open>logger_enter\<close>
  for the secret list and \<^verbatim>\<open>LoggerOperations\<close> being entered; \<open>exec_flow\<close> and \<open>exec_node\<close> for
  the execution that \<^verbatim>\<open>flow_test\<close> and \<^verbatim>\<open>node_test\<close> hand over once their checks have passed.
\<close>

record init_args =
  arg_connections :: pyval
  arg_target_node :: "string option"
  arg_environment_variables :: pyval
  arg_stream_log :: bool
  arg_output_path :: "string option"
  arg_session :: "string option"
  arg_stream_output :: bool

record collab =
  variant_overwrite :: "submitter \<Rightarrow> exn + (flow \<times> string option \<times> string option)"
  generate_metadata :: "flow \<Rightarrow> exn + unit"
  init_environment :: "flow \<Rightarrow> init_args \<Rightarrow> exn + unit"
  prompt_flow_dir_name :: string
  mkdir :: "fspath \<Rightarrow> exn + unit"
  resolve_used_connections :: "flow \<Rightarrow> exn + pyval"
  resolve_connections :: "flow \<Rightarrow> exn + pyval"
  logger_enter :: "fspath \<Rightarrow> pyval \<Rightarrow> exn + unit"
  create_storage :: "fspath \<Rightarrow> fspath \<Rightarrow> exn + pyval"
  create_executor_proxy :: "flow \<Rightarrow> pyval \<Rightarrow> exn + executor_proxy"
  exec_flow :: "submitter \<Rightarrow> pyval \<Rightarrow> exn + pyval"
  exec_node :: "submitter \<Rightarrow> pyval \<Rightarrow> pyval \<Rightarrow> exn + pyval"

text \<open>Truth value of an optional string, as \<^verbatim>\<open>if output_base:\<close> and \<^verbatim>\<open>if self.target_node:\<close>
  test it.\<close>

fun truthy_str :: "string option \<Rightarrow> bool" where
  "truthy_str None = False"
| "truthy_str (Some s) = (s \<noteq> [])"

text \<open>\<^verbatim>\<open>TestSubmitter._resolve_output_path\<close>: the output base, the log path and the sub
  directory. A path is the list of its components; \<^verbatim>\<open>Path(".")\<close> is the empty list.\<close>

definition resolve_output_path ::
  "collab \<Rightarrow> string option \<Rightarrow> string \<Rightarrow> string option \<Rightarrow> exn + (fspath \<times> fspath \<times> fspath)" where
  "resolve_output_path c output_base_arg default_dir tn =
     (let (ob, output_sub) =
            (case output_base_arg of
               Some b \<Rightarrow> if b \<noteq> [] then ([b], []) else ([default_dir], [prompt_flow_dir_name c])
             | None \<Rightarrow> ([default_dir], [prompt_flow_dir_name c]));
          log_name =
            (case tn of
               Some t \<Rightarrow> if t \<noteq> [] then t @ ''.node.log'' else ''flow.log''
             | None \<Rightarrow> ''flow.log'')
      in case mkdir c ob of
           Inl x \<Rightarrow> Inl x
         | Inr u \<Rightarrow> Inr (ob, ob @ output_sub @ [log_name], output_sub))"

text \<open>\<^verbatim>\<open>TestSubmitter._resolve_connections\<close>\<close>

definition resolve_connections_of :: "collab \<Rightarrow> flow \<Rightarrow> exn + pyval" where
  "resolve_connections_of c f =
     (if language f = CSharp then
        (if eager f then Inr (PDict []) else resolve_used_connections c f)
      else if language f = Python then resolve_connections c f
      else Inl (UserErrorException (''Unsupported flow language '' @ language_name (language f))))"

text \<open>
  A statement of a generator-based context manager that calls out: when the call raises,
  the exception leaves the generator with the object as it is at that point, and no later
  statement of the generator runs unless a \<^verbatim>\<open>finally\<close> holds it.
\<close>

definition on :: "exn + 'a \<Rightarrow> submitter \<Rightarrow> ('a \<Rightarrow> (exn + 'b) \<times> submitter) \<Rightarrow> (exn + 'b) \<times> submitter" where
  "on r s k = (case r of Inl x \<Rightarrow> (Inl x, s) | Inr v \<Rightarrow> k v)"

text \<open>
  The \<^verbatim>\<open>finally\<close> block of \<^verbatim>\<open>init\<close> (lines 302 to 304):
  \<^verbatim>\<open>if self.executor_proxy: ...destroy_if_all_generators_exhausted\<close>. The property is guarded.
\<close>

definition teardown :: "submitter \<Rightarrow> (exn + unit) \<times> submitter" where
  "teardown s =
     on (executor_proxy s) s (\<lambda>ep.
       case ep of
         None \<Rightarrow> (Inr (), s)
       | Some p \<Rightarrow> (Inr (), s\<lparr>executor_proxy' := Some (destroy_if_all_generators_exhausted p)\<rparr>))"

text \<open>
  \<^verbatim>\<open>TestSubmitter.init\<close> up to its \<^verbatim>\<open>yield\<close>, with \<^verbatim>\<open>_resolve_variant\<close> up to its own \<^verbatim>\<open>yield\<close>
  (lines 136 to 153 and 239 to 298), statement by statement.
\<close>

definition init_enter :: "collab \<Rightarrow> init_args \<Rightarrow> submitter \<Rightarrow> (exn + unit) \<times> submitter" where
  "init_enter c a s0 =
     on (variant_overwrite c s0) s0 (\<lambda>(temp_flow, tuning_node, node_variant).
     let s1 = s0\<lparr>flow' := Some temp_flow, tuning_node' := tuning_node,
                  node_variant' := node_variant\<rparr>;
         s2 = s1\<lparr>within_init_context' := True\<rparr>
     in
     on (if language temp_flow = CSharp then generate_metadata c temp_flow else Inr ()) s2 (\<lambda>u.
     let s3 = s2\<lparr>target_node' := arg_target_node a,
                  enable_stream_output' := Some (arg_stream_output a)\<rparr>
     in
     on (init_environment c temp_flow a) s3 (\<lambda>u.
     on (resolve_output_path c (arg_output_path a) (code temp_flow) (arg_target_node a)) s3
       (\<lambda>(ob, log_path, output_sub).
     let s4 = s3\<lparr>output_base' := Some ob,
                  relative_flow_output_path' := Some (output_sub @ [''output''])\<rparr>
     in
     on (if truthy (arg_connections a) then Inr (arg_connections a)
         else resolve_connections_of c temp_flow) s4 (\<lambda>conns.
     let s5 = s4\<lparr>connections' := Some conns\<rparr>
     in
     on (logger_enter c log_path conns) s5 (\<lambda>u.
     on (create_storage c ob (output_sub @ [''intermediate''])) s5 (\<lambda>st.
     let s6 = s5\<lparr>storage' := Some st\<rparr>
     in
     if language temp_flow = CSharp then
       on (create_executor_proxy c temp_flow conns) s6 (\<lambda>ep.
         (Inr (), s6\<lparr>executor_proxy' := Some ep\<rparr>))
     else (Inr (), s6))))))))"

text \<open>
  What runs after the \<^verbatim>\<open>with\<close> body has ended normally and the \<^verbatim>\<open>finally\<close> block is done:
  line 306 of \<^verbatim>\<open>init\<close>, then lines 155 to 158 of \<^verbatim>\<open>_resolve_variant\<close>.
\<close>

definition init_exit :: "submitter \<Rightarrow> submitter" where
  "init_exit s =
     (let s1 = s\<lparr>within_init_context' := False\<rparr>
      in s1\<lparr>flow' := None, dataplane_flow' := None, tuning_node' := None,
             node_variant' := None\<rparr>)"

text \<open>
  \<^verbatim>\<open>with submitter.init(...) as s: body\<close>. The body is any code using the submitter; it ends
  normally with a value or raises. The \<^verbatim>\<open>finally\<close> block runs in both cases. An exception of
  the body (or of the \<^verbatim>\<open>finally\<close> block) is thrown into the generator at its \<^verbatim>\<open>yield\<close> and
  leaves it through the \<^verbatim>\<open>with\<close> statements, so the statements after them do not run.
\<close>

definition init ::
  "collab \<Rightarrow> init_args \<Rightarrow> (submitter \<Rightarrow> (exn + 'r) \<times> submitter) \<Rightarrow> submitter \<Rightarrow> (exn + 'r) \<times> submitter" where
  "init c a body s0 =
     (case init_enter c a s0 of
        (Inl x, s) \<Rightarrow> (Inl x, s)
      | (Inr u, s) \<Rightarrow>
          (case body s of
             (r, s') \<Rightarrow>
               (case teardown s' of
                  (Inl x, s'') \<Rightarrow> (Inl x, s'')
                | (Inr u, s'') \<Rightarrow>
                    (case r of
                       Inl x \<Rightarrow> (Inl x, s'')
                     | Inr v \<Rightarrow> (Inr v, init_exit s'')))))"

text \<open>\<^verbatim>\<open>TestSubmitter.flow_test\<close>: the guard, the check of the target node, then the execution
  (lines 434 to 478), which is a collaborator's.\<close>

definition flow_test :: "collab \<Rightarrow> submitter \<Rightarrow> pyval \<Rightarrow> exn + pyval" where
  "flow_test c s ins =
     (case raise_if_not_within_init_context s of
        Some x \<Rightarrow> Inl x
      | None \<Rightarrow>
          (case target_node s of
             Inl x \<Rightarrow> Inl x
           | Inr tn \<Rightarrow>
               if truthy_str tn
               then Inl (UserErrorException ''target_node is not allowed for flow test.'')
               else exec_flow c s ins))"

text \<open>\<^verbatim>\<open>TestSubmitter.node_test\<close>\<close>

definition node_test :: "collab \<Rightarrow> submitter \<Rightarrow> pyval \<Rightarrow> pyval \<Rightarrow> exn + pyval" where
  "node_test c s flow_inputs dependency_nodes_outputs =
     (case raise_if_not_within_init_context s of
        Some x \<Rightarrow> Inl x
      | None \<Rightarrow>
          (case target_node s of
             Inl x \<Rightarrow> Inl x
           | Inr tn \<Rightarrow>
               if tn = None
               then Inl (UserErrorException ''target_node is required for node test.'')
               else (case flow s of
                       Inl x \<Rightarrow> Inl x
                     | Inr f \<Rightarrow>
                         if map_option language f = Some CSharp
                         then Inl (NotSupported ''Node test is not supported for CSharp flow for now.'')
                         else exec_node c s flow_inputs dependency_nodes_outputs)))"

text \<open>
  An example: a Python flow, collaborators that succeed, and a submitter for the flow.
\<close>

definition example_flow :: flow where
  "example_flow = \<lparr> language = Python, path = ''flow.dag.yaml'', code = ''/flows/f'',
                     eager = False \<rparr>"

definition example_collab :: collab where
  "example_collab =
     \<lparr> variant_overwrite = (\<lambda>s. Inr ((origin_flow' s)\<lparr>code := ''/tmp/resolved''\<rparr>, None, None)),
       generate_metadata = (\<lambda>f. Inr ()),
       init_environment = (\<lambda>f a. Inr ()),
       prompt_flow_dir_name = ''.promptflow'',
       mkdir = (\<lambda>p. Inr ()),
       resolve_used_connections = (\<lambda>f. Inr (PDict [])),
       resolve_connections = (\<lambda>f. Inr (PDict [])),
       logger_enter = (\<lambda>p conns. Inr ()),
       create_storage = (\<lambda>b d. Inr (PObject 9)),
       create_executor_proxy = (\<lambda>f conns. Inr new_executor_proxy),
       exec_flow = (\<lambda>s ins. Inr (PDict [])),
       exec_node = (\<lambda>s fi dn. Inr (PDict [])) \<rparr>"

definition example_args :: "string option \<Rightarrow> init_args" where
  "example_args tn =
     \<lparr> arg_connections = PNone, arg_target_node = tn, arg_environment_variables = PNone,
       arg_stream_log = True, arg_output_path = None, arg_session = None,
       arg_stream_output = True \<rparr>"

text \<open>
  A C# flow, for which \<^verbatim>\<open>init\<close> creates an executor proxy, and the outcome of
  \<^verbatim>\<open>with TestSubmitter(f, ...).init(target_node="n") as s: s.flow_test({})\<close> for a flow \<open>f\<close>:
  \<^verbatim>\<open>flow_test\<close> refuses a target node, so the body raises.
\<close>

definition example_csharp_flow :: flow where
  "example_csharp_flow = \<lparr> language = CSharp, path = ''flow.dag.yaml'', code = ''/flows/c'',
                            eager = False \<rparr>"

definition failed_context :: "flow \<Rightarrow> (exn + pyval) \<times> submitter" where
  "failed_context f =
     init example_collab (example_args (Some ''n''))
       (\<lambda>s. (flow_test example_collab s (PDict []), s)) (TestSubmitter_init f)"

text \<open>A \<^verbatim>\<open>with\<close> body that starts two streams on the executor proxy and reads only the
  first to its end.\<close>

definition two_streams_one_read :: "submitter \<Rightarrow> (exn + pyval) \<times> submitter" where
  "two_streams_one_read s =
     (Inr PNone,
      s\<lparr>executor_proxy' :=
          map_option (\<lambda>p. exhaust 0 (register (register p))) (executor_proxy' s)\<rparr>)"

section \<open>Properties of the serialization normalizer\<close>



lemma to_serializable_other:
  "\<not> is_str_keyed_dict obj \<Longrightarrow> \<not> is_GeneratorProxy obj \<Longrightarrow>
   to_serializable e obj =
     (case try_serialize e obj of
        Inr obj' \<Rightarrow> Inr obj'
      | Inl (x, obj') \<Rightarrow> (case py_str e obj' of Inl y \<Rightarrow> Inl y | Inr s \<Rightarrow> Inr (PStr s)))"
  by (subst to_serializable.simps) simp



lemma py_str_PStr: "py_str e (PStr s) = Inr s"
  by (simp add: py_str_def)




lemma to_serializable_str:
  assumes "\<forall>s r. serialize e (PStr s) = Inr r \<longrightarrow> r = PStr s"
  shows "to_serializable e (PStr s) = Inr (PStr s)"
proof -
  have other: "to_serializable e (PStr s) =
      (case try_serialize e (PStr s) of
         Inr obj' \<Rightarrow> Inr obj'
       | Inl (x, obj') \<Rightarrow> (case py_str e obj' of Inl y \<Rightarrow> Inl y | Inr s \<Rightarrow> Inr (PStr s)))"
    by (rule to_serializable_other) simp_all
  show ?thesis
  proof (cases "serialize e (PStr s)")
    case (Inl y)
    then show ?thesis by (simp add: other try_serialize_def py_str_PStr)
  next
    case (Inr r)
    with assms have "r = PStr s" by blast
    with Inr show ?thesis
      by (cases "json_dumps e (PStr s)") (simp_all add: other try_serialize_def py_str_PStr)
  qed
qed




text \<open>
  Claim C7, as stated, fails in two ways. A string-keyed dictionary whose encoding fails
  is not turned into a string, since the dictionary case comes first: its values are
  normalized one by one and a dictionary is returned. And for an object that the encoder
  refuses and whose \<^verbatim>\<open>__str__\<close> raises, \<^verbatim>\<open>to_serializable\<close> returns nothing: it raises.
\<close>

theorem C7_counterexample:
  "try_serialize example_env (PDict [(PStr ''k'', PObject 1)]) =
     Inl (Raised ''TypeError'', PDict [(PStr ''k'', PObject 1)]) \<and>
   to_serializable example_env (PDict [(PStr ''k'', PObject 1)]) =
     Inr (PDict [(PStr ''k'', PStr ''<object>'')]) \<and>
   \<not> is_str (PDict [(PStr ''k'', PStr ''<object>'')]) \<and>
   try_serialize raising_str_env (PObject 2) = Inl (Raised ''TypeError'', PObject 2) \<and>
   to_serializable raising_str_env (PObject 2) = Inl (Raised ''__str__'')"
  by (simp add: example_env_def raising_str_env_def py_str_def to_serializable.simps
        try_serialize_def)

text \<open>
  Claim C7, amended. For a value that is neither a string-keyed dictionary nor a proxy,
  for which the structured serialization or the encoding fails, and for which \<^verbatim>\<open>str\<close> of the
  object the \<^verbatim>\<open>try\<close> block was holding returns, \<^verbatim>\<open>to_serializable\<close> returns that string; and
  when \<^verbatim>\<open>serialize\<close> gives a string back unchanged whenever it accepts one, a second pass
  returns that same string.
\<close>

theorem C7_failed_serialization_gives_fixed_string:
  assumes "\<not> is_str_keyed_dict v" and "\<not> is_GeneratorProxy v"
    and "try_serialize e v = Inl (x, v')"
    and "py_str e v' = Inr s"
    and "\<forall>s r. serialize e (PStr s) = Inr r \<longrightarrow> r = PStr s"
  shows "to_serializable e v = Inr (PStr s) \<and>
         to_serializable e (PStr s) = Inr (PStr s)"
proof
  from assms(1-4) show "to_serializable e v = Inr (PStr s)"
    by (simp add: to_serializable_other)
next
  from assms(5) show "to_serializable e (PStr s) = Inr (PStr s)"
    by (rule to_serializable_str)
qed

theorem C7_witness:
  "\<not> is_str_keyed_dict (PObject 1) \<and> \<not> is_GeneratorProxy (PObject 1) \<and>
   try_serialize example_env (PObject 1) = Inl (Raised ''TypeError'', PObject 1) \<and>
   py_str example_env (PObject 1) = Inr ''<object>'' \<and>
   to_serializable example_env (PObject 1) = Inr (PStr ''<object>'') \<and>
   to_serializable example_env (PStr ''<object>'') = Inr (PStr ''<object>'')"
proof -
  have h1: "\<not> is_str_keyed_dict (PObject 1)" and h2: "\<not> is_GeneratorProxy (PObject 1)"
    by simp_all
  have h3: "try_serialize example_env (PObject 1) = Inl (Raised ''TypeError'', PObject 1)"
    by (simp add: example_env_def try_serialize_def)
  have h4: "py_str example_env (PObject 1) = Inr ''<object>''"
    by (simp add: example_env_def py_str_def)
  have h5: "\<forall>s r. serialize example_env (PStr s) = Inr r \<longrightarrow> r = PStr s"
    by (auto simp: example_env_def)
  from C7_failed_serialization_gives_fixed_string [OF h1 h2 h3 h4 h5] h1 h2 h3 h4
  show ?thesis by simp
qed

section \<open>Properties of the recorder's operations\<close>












lemma example_world_reached:
  "push example_env (start_tracing no_context ''run'' (Some ''node'')) 1 ''u1''
     (example_trace ''flow'') = Inr example_world"
  by (simp add: push_def start_tracing_def current_run_id_def active_instance_def
        activate_in_context_def no_context_def Tracer_init_def Tracer_push_def
        get_current_trace_def example_trace_def example_world_def example_tracer_def
        to_serializable.simps Let_def)


lemma example_world_active: "active_instance example_world = Some example_tracer"
  by (simp add: active_instance_def example_world_def)














text \<open>
  Claim C4. Without an active context \<^verbatim>\<open>end_tracing\<close> returns the empty list. With a run id
  that is not the active context's it returns the empty list and leaves the state as it
  is, so the context is still attached and a later call without a run id returns its
  serialized root traces. Otherwise it detaches the context and returns the serialized
  root traces.
\<close>

theorem C4_end_tracing:
  "(active_instance w = None \<longrightarrow> end_tracing w rid = (Some [], w)) \<and>
   (active_instance w = Some tr \<and> rid = Some r \<and> r \<noteq> run_id tr \<longrightarrow>
      end_tracing w rid = (Some [], w) \<and>
      active_instance (snd (end_tracing w rid)) = Some tr \<and>
      end_tracing (snd (end_tracing w rid)) None = (to_json tr, w\<lparr>context_var := None\<rparr>)) \<and>
   (active_instance w = Some tr \<and> (rid = None \<or> rid = Some (run_id tr)) \<longrightarrow>
      end_tracing w rid = (to_json tr, w\<lparr>context_var := None\<rparr>) \<and>
      active_instance (snd (end_tracing w rid)) = None)"
  by (auto simp: end_tracing_def active_instance_def deactivate_in_context_def)

theorem C4_witness:
  "active_instance no_context = None \<and>
   end_tracing no_context None = (Some [], no_context) \<and>
   active_instance example_world = Some example_tracer \<and> ''other'' \<noteq> run_id example_tracer \<and>
   end_tracing example_world (Some ''other'') = (Some [], example_world) \<and>
   end_tracing example_world None =
     (to_json example_tracer, example_world\<lparr>context_var := None\<rparr>) \<and>
   end_tracing example_world (Some ''run'') =
     (to_json example_tracer, example_world\<lparr>context_var := None\<rparr>) \<and>
   map_option (map total_nodes) (to_json example_tracer) = Some [1]"
proof -
  have a: "active_instance no_context = None"
    by (simp add: active_instance_def no_context_def)
  have r: "''other'' \<noteq> run_id example_tracer" and r': "run_id example_tracer = ''run''"
    by (simp_all add: example_tracer_def)
  have j: "map_option (map total_nodes) (to_json example_tracer) = Some [1]"
    by (simp add: to_json_def example_tracer_def example_trace_def)
  from C4_end_tracing [of no_context None example_tracer "''other''"]
       C4_end_tracing [of example_world "Some ''other''" example_tracer "''other''"]
       C4_end_tracing [of example_world None example_tracer "''other''"]
       C4_end_tracing [of example_world "Some ''run''" example_tracer "''other''"]
       a r r' j example_world_active
  show ?thesis by simp
qed

text \<open>
  Claim C5. The state holds one context or none. \<^verbatim>\<open>start_tracing\<close> with a context already
  active returns normally, logs a warning and changes nothing else: the same context is
  active, with its run id, and a push that follows has the effect on it that it would
  have had without that call.
\<close>

theorem C5_second_start_rejected:
  "active_instance w = Some tr \<longrightarrow>
     start_tracing w rid nn =
       w\<lparr>warnings := warnings w @
           [''Try to start tracing for run '' @ rid @ '' but '' @ run_id tr @ '' is already active.'']\<rparr> \<and>
     active_instance (start_tracing w rid nn) = Some tr \<and>
     current_run_id (start_tracing w rid nn) = Some (run_id tr) \<and>
     (case push e w now uuid t of
        Inl x \<Rightarrow> push e (start_tracing w rid nn) now uuid t = Inl x
      | Inr w1 \<Rightarrow>
          (\<exists>w2. push e (start_tracing w rid nn) now uuid t = Inr w2 \<and>
                context_var w2 = context_var w1 \<and>
                current_run_id w2 = Some (run_id tr)))"
proof
  assume a: "active_instance w = Some tr"
  have s: "start_tracing w rid nn =
       w\<lparr>warnings := warnings w @
           [''Try to start tracing for run '' @ rid @ '' but '' @ run_id tr @ '' is already active.'']\<rparr>"
    using a by (simp add: start_tracing_def current_run_id_def)
  have r: "run_id tr' = run_id tr" if "Tracer_push e tr now uuid t = Inr tr'" for tr'
    using that
    by (auto simp: Tracer_push_def Let_def split: sum.splits option.splits if_splits)
  have p: "(case push e w now uuid t of
        Inl x \<Rightarrow> push e (start_tracing w rid nn) now uuid t = Inl x
      | Inr w1 \<Rightarrow>
          (\<exists>w2. push e (start_tracing w rid nn) now uuid t = Inr w2 \<and>
                context_var w2 = context_var w1 \<and>
                current_run_id w2 = Some (run_id tr)))"
    using a r
    by (cases "Tracer_push e tr now uuid t")
       (simp_all add: s push_def active_instance_def current_run_id_def)
  from a s p show "start_tracing w rid nn =
       w\<lparr>warnings := warnings w @
           [''Try to start tracing for run '' @ rid @ '' but '' @ run_id tr @ '' is already active.'']\<rparr> \<and>
     active_instance (start_tracing w rid nn) = Some tr \<and>
     current_run_id (start_tracing w rid nn) = Some (run_id tr) \<and>
     (case push e w now uuid t of
        Inl x \<Rightarrow> push e (start_tracing w rid nn) now uuid t = Inl x
      | Inr w1 \<Rightarrow>
          (\<exists>w2. push e (start_tracing w rid nn) now uuid t = Inr w2 \<and>
                context_var w2 = context_var w1 \<and>
                current_run_id w2 = Some (run_id tr)))"
    by (simp add: active_instance_def current_run_id_def)
qed

theorem C5_witness:
  "active_instance example_world = Some example_tracer \<and>
   start_tracing example_world ''other'' None =
     example_world\<lparr>warnings :=
       [''Try to start tracing for run other but run is already active.'']\<rparr> \<and>
   current_run_id (start_tracing example_world ''other'' None) = Some ''run'' \<and>
   map_sum id context_var
     (push example_env (start_tracing example_world ''other'' None) 3 ''u2'' (example_trace ''tool'')) =
   map_sum id context_var (push example_env example_world 3 ''u2'' (example_trace ''tool''))"
proof -
  have r: "run_id example_tracer = ''run''"
    by (simp add: example_tracer_def)
  from C5_second_start_rejected
          [of example_world example_tracer "''other''" None example_env 3 "''u2''"
              "example_trace ''tool''"]
       example_world_active r
  show ?thesis
    by (auto simp: example_world_def split: sum.splits)
qed

section \<open>The call tree built by a sequence of pushes and pops\<close>


























section \<open>The init context of the test submitter\<close>

text \<open>
  Outside an init context that has not begun, or that has ended normally, the flag is
  down and each guarded member raises the user error.
\<close>

lemmas submitter_defs = init_def init_enter_def init_exit_def on_def teardown_def
  executor_proxy_def enable_stream_output_def flow_def output_base_def
  relative_flow_output_path_def target_node_def guarded_def
  raise_if_not_within_init_context_def flow_test_def node_test_def
  resolve_output_path_def resolve_connections_of_def Let_def

lemmas example_defs = example_collab_def example_args_def example_flow_def
  example_csharp_flow_def TestSubmitter_init_def failed_context_def new_executor_proxy_def
  destroy_if_all_generators_exhausted_def all_exhausted_def register_def exhaust_def
  two_streams_one_read_def

lemma outside_context_raises:
  assumes "\<not> within_init_context' s"
  shows "executor_proxy s = Inl (UserErrorException ''This method should be called within the init context.'')"
    and "enable_stream_output s = Inl (UserErrorException ''This method should be called within the init context.'')"
    and "flow s = Inl (UserErrorException ''This method should be called within the init context.'')"
    and "output_base s = Inl (UserErrorException ''This method should be called within the init context.'')"
    and "relative_flow_output_path s = Inl (UserErrorException ''This method should be called within the init context.'')"
    and "target_node s = Inl (UserErrorException ''This method should be called within the init context.'')"
    and "flow_test c s ins = Inl (UserErrorException ''This method should be called within the init context.'')"
    and "node_test c s fi dn = Inl (UserErrorException ''This method should be called within the init context.'')"
  using assms
  by (simp_all add: executor_proxy_def enable_stream_output_def flow_def output_base_def
      relative_flow_output_path_def target_node_def guarded_def
      raise_if_not_within_init_context_def flow_test_def node_test_def)

lemma before_init_outside: "\<not> within_init_context' (TestSubmitter_init f)"
  by (simp add: TestSubmitter_init_def)

lemma init_normal_exit_outside:
  assumes "init c a body s0 = (Inr v, s)"
  shows "\<not> within_init_context' s"
  using assms
  by (auto simp: init_def init_exit_def Let_def split: prod.splits sum.splits)

text \<open>
  Claim C10. The claim is what the guard is for, and the code breaks it: line 306, which
  lowers the flag, and the resets of \<^verbatim>\<open>_resolve_variant\<close> stand after the \<^verbatim>\<open>with\<close> blocks
  and outside any \<^verbatim>\<open>finally\<close>, so they are skipped when the body of the context raises. At
  the input below (\<^verbatim>\<open>flow_test\<close> called in a context opened with a target node) the context
  is left by the exception, yet afterwards the flag is still up and the members answer
  instead of raising: they return the temporary flow, the paths and the target node of
  the context that is over, for a C# flow the executor proxy that the teardown has
  destroyed, and \<^verbatim>\<open>node_test\<close> goes on to execute.
\<close>

theorem C10_members_answer_after_failed_context:
  "fst (failed_context example_flow) =
     Inl (UserErrorException ''target_node is not allowed for flow test.'') \<and>
   within_init_context' (snd (failed_context example_flow)) \<and>
   flow (snd (failed_context example_flow)) = Inr (Some (example_flow\<lparr>code := ''/tmp/resolved''\<rparr>)) \<and>
   target_node (snd (failed_context example_flow)) = Inr (Some ''n'') \<and>
   enable_stream_output (snd (failed_context example_flow)) = Inr (Some True) \<and>
   output_base (snd (failed_context example_flow)) = Inr (Some [''/tmp/resolved'']) \<and>
   relative_flow_output_path (snd (failed_context example_flow)) =
     Inr (Some [''.promptflow'', ''output'']) \<and>
   fst (failed_context example_csharp_flow) =
     Inl (UserErrorException ''target_node is not allowed for flow test.'') \<and>
   executor_proxy (snd (failed_context example_csharp_flow)) =
     Inr (Some \<lparr>generators = [], destroyed = True\<rparr>) \<and>
   node_test example_collab (snd (failed_context example_flow)) (PDict []) (PDict []) =
     Inr (PDict [])"
  by (simp add: submitter_defs example_defs)

text \<open>
  Claim C3. A release request never destroys an executor proxy while a registered stream
  is not exhausted. With two streams registered and one exhausted the request leaves the
  proxy alive; once the second is exhausted too, the next request destroys it. The
  \<^verbatim>\<open>finally\<close> block of \<^verbatim>\<open>init\<close> reaches the proxy only through that request: a proxy found
  destroyed after it was destroyed before or had all its streams exhausted; and \<^verbatim>\<open>init\<close>
  as a whole leaves the proxy as its \<^verbatim>\<open>finally\<close> block leaves it.
\<close>

theorem C3_release_is_gated:
  "(\<not> destroyed ep \<and> \<not> all_exhausted ep \<longrightarrow>
      \<not> destroyed (destroy_if_all_generators_exhausted ep)) \<and>
   \<not> destroyed (destroy_if_all_generators_exhausted
                  (exhaust 0 (register (register new_executor_proxy)))) \<and>
   destroyed (destroy_if_all_generators_exhausted
     (exhaust 1 (destroy_if_all_generators_exhausted
                  (exhaust 0 (register (register new_executor_proxy)))))) \<and>
   (\<forall>p'. executor_proxy' (snd (teardown s)) = Some p' \<and> destroyed p' \<longrightarrow>
      (\<exists>p. executor_proxy' s = Some p \<and> (destroyed p \<or> all_exhausted p))) \<and>
   (init_enter c a s0 = (Inr (), s1) \<and> body s1 = (r, s2) \<longrightarrow>
      executor_proxy' (snd (init c a body s0)) = executor_proxy' (snd (teardown s2)))"
proof (intro conjI impI allI)
  assume "\<not> destroyed ep \<and> \<not> all_exhausted ep"
  then show "\<not> destroyed (destroy_if_all_generators_exhausted ep)"
    by (simp add: destroy_if_all_generators_exhausted_def)
next
  show "\<not> destroyed (destroy_if_all_generators_exhausted
                  (exhaust 0 (register (register new_executor_proxy))))"
    by (simp add: example_defs)
next
  show "destroyed (destroy_if_all_generators_exhausted
     (exhaust 1 (destroy_if_all_generators_exhausted
                  (exhaust 0 (register (register new_executor_proxy))))))"
    by (simp add: example_defs)
next
  fix p'
  assume "executor_proxy' (snd (teardown s)) = Some p' \<and> destroyed p'"
  then show "\<exists>p. executor_proxy' s = Some p \<and> (destroyed p \<or> all_exhausted p)"
    by (auto simp: teardown_def on_def executor_proxy_def guarded_def
          destroy_if_all_generators_exhausted_def
          split: option.splits if_splits)
next
  assume "init_enter c a s0 = (Inr (), s1) \<and> body s1 = (r, s2)"
  then show "executor_proxy' (snd (init c a body s0)) = executor_proxy' (snd (teardown s2))"
    by (auto simp: init_def init_exit_def Let_def split: prod.splits sum.splits)
qed

text \<open>
  The theorem on a C# flow: a body that leaves a stream unread, and the teardown once
  both streams are read.
\<close>

theorem C3_witness:
  "\<not> destroyed (exhaust 0 (register (register new_executor_proxy))) \<and>
   \<not> all_exhausted (exhaust 0 (register (register new_executor_proxy))) \<and>
   \<not> destroyed (destroy_if_all_generators_exhausted
                  (exhaust 0 (register (register new_executor_proxy)))) \<and>
   fst (init_enter example_collab (example_args None) (TestSubmitter_init example_csharp_flow)) =
     Inr () \<and>
   executor_proxy'
     (snd (init example_collab (example_args None) two_streams_one_read
             (TestSubmitter_init example_csharp_flow))) =
     Some \<lparr>generators = [True, False], destroyed = False\<rparr> \<and>
   executor_proxy'
     (snd (teardown
        (snd (init example_collab (example_args None) two_streams_one_read
               (TestSubmitter_init example_csharp_flow))
           \<lparr>within_init_context' := True,
            executor_proxy' := Some \<lparr>generators = [True, True], destroyed = False\<rparr>\<rparr>))) =
     Some \<lparr>generators = [True, True], destroyed = True\<rparr>"
  using C3_release_is_gated
    [of "exhaust 0 (register (register new_executor_proxy))"
        "snd (init example_collab (example_args None) two_streams_one_read
               (TestSubmitter_init example_csharp_flow))
           \<lparr>within_init_context' := True,
            executor_proxy' := Some \<lparr>generators = [True, True], destroyed = False\<rparr>\<rparr>"
        example_collab "example_args None" "TestSubmitter_init example_csharp_flow"
        "snd (init_enter example_collab (example_args None)
                (TestSubmitter_init example_csharp_flow))"
        two_streams_one_read
        "fst (two_streams_one_read (snd (init_enter example_collab (example_args None)
                (TestSubmitter_init example_csharp_flow))))"
        "snd (two_streams_one_read (snd (init_enter example_collab (example_args None)
                (TestSubmitter_init example_csharp_flow))))"]
  by (simp add: submitter_defs example_defs)

end
